theory Spec2Isabelle
  imports Main "HOL-Library.Word"
begin

unbundle bit_operations_syntax

section \<open>The script engine of \<open>cos/txscript/engine.go\<close>\<close>

text \<open>
  The engine is the virtual machine that runs spending-condition scripts. This theory
  embeds \<open>engine.go\<close> function by function. Go methods with a pointer receiver mutate
  the engine; here each of them takes the engine and returns it updated, together with
  the Go \<open>error\<close> it returns (\<open>None\<close> is \<open>nil\<close>). A failing Go method keeps the
  mutations it made before it failed, so the error does not replace the state: both are
  returned. A runtime panic (index out of range, nil dereference) is a separate outcome.
\<close>

subsection \<open>Bytes, errors and outcomes\<close>

type_synonym byte = "8 word"
type_synonym bytes = "byte list"

text \<open>
  The error values named in \<open>engine.go\<close>. \<open>ErrInvalidHashType h\<close> is the value built by
  \<open>fmt.Errorf("invalid hashtype: 0x%x\n", hashType)\<close>, which is determined by the hash
  type. \<open>ErrStackUnderflow\<close> and \<open>ErrStackInvalidArgs\<close> are what the stack reports
  on a read below its bottom and on an invalid argument. \<open>ErrOther\<close> stands for every other
  error of the package, as returned by the parser and by opcode handlers.
\<close>

datatype error =
    ErrStackOpDisabled
  | ErrStackReservedOpcode
  | ErrStackTooManyOperations
  | ErrStackElementTooBig
  | ErrStackScriptUnfinished
  | ErrStackEmptyStack
  | ErrStackScriptFailed
  | ErrStackOverflow
  | ErrStackLongScript
  | ErrInvalidIndex
  | ErrInvalidHashType "32 word"
  | ErrStackUnderflow
  | ErrStackInvalidArgs
  | ErrOther string

datatype panic = IndexOutOfRange | NilDereference

datatype 'a outcome = Panic panic | Return 'a

subsection \<open>Script flags\<close>

text \<open>\<open>type ScriptFlags uint32\<close>, with the constants \<open>1 << iota\<close> in declaration order.\<close>

type_synonym ScriptFlags = "32 word"

definition ScriptStrictMultiSig :: ScriptFlags where
  "ScriptStrictMultiSig = push_bit 0 1"

definition ScriptDiscourageUpgradableNops :: ScriptFlags where
  "ScriptDiscourageUpgradableNops = push_bit 1 1"

definition ScriptVerifyDERSignatures :: ScriptFlags where
  "ScriptVerifyDERSignatures = push_bit 2 1"

definition ScriptVerifyLowS :: ScriptFlags where
  "ScriptVerifyLowS = push_bit 3 1"

definition ScriptVerifySigPushOnly :: ScriptFlags where
  "ScriptVerifySigPushOnly = push_bit 4 1"

definition ScriptVerifyStrictEncoding :: ScriptFlags where
  "ScriptVerifyStrictEncoding = push_bit 5 1"

definition maxExecutionStackSize :: int where
  "maxExecutionStackSize = 10"

subsection \<open>Opcodes, frames and stacks\<close>

text \<open>
  A parsed opcode carries the opcode (of which \<open>engine.go\<close> reads the byte \<open>value\<close>;
  the name \<open>opvalue\<close> avoids the command of that name) and the pushed data. The
  opcode's handler \<open>opfunc\<close> and its predicates are functions of the dispatcher, below.
\<close>

record opcode =
  opvalue :: byte

record parsedOpcode =
  opcode :: opcode
  data :: bytes

text \<open>
  Modelled from the spec: the type \<open>stackFrame\<close> is declared outside \<open>engine.go\<close>,
  which only builds it as \<open>&stackFrame{script: newScript}\<close> and reads \<open>condStack\<close>.
  The spec's execution frame has the parsed opcode sequence, a program counter and a
  condition stack of branch tags, the last tag being the top.
\<close>

record stackFrame =
  script :: "parsedOpcode list"
  pc :: nat
  condStack :: "int list"

text \<open>
  Modelled from the spec: the type \<open>scriptStack\<close> and its methods are declared outside
  \<open>engine.go\<close>. The execution stack is the ordered sequence of frames; the last frame
  of the list is the topmost one, the one being stepped.
\<close>

type_synonym scriptStack = "stackFrame list"

text \<open>
  Modelled from the spec: the type \<open>stack\<close> and its methods are declared outside
  \<open>engine.go\<close>. A stack is the sequence of its byte arrays from bottom to top.
\<close>

type_synonym stack = "bytes list"

subsection \<open>Transactions and blocks\<close>

text \<open>
  Modelled from the spec: package \<open>bc\<close> is outside the sources. Only the fields that
  \<open>engine.go\<close> reads are kept: each input's witness, each output's amount, and the
  block's signature script.
\<close>

record TxInput =
  InputWitness :: "bytes list"

record TxOutput =
  Amount :: "64 word"

record TxData =
  Inputs :: "TxInput list"
  Outputs :: "TxOutput list"

record Block =
  SignatureScript :: bytes

subsection \<open>The engine\<close>

text \<open>
  The struct \<open>Engine\<close>. Pointers that may be nil are options. \<open>scriptNum\<close> and Go's
  \<open>int\<close> are integers: no claim below depends on their width. The signature hasher is
  derived from the transaction and only held, so it is represented by that transaction.
\<close>

record Engine =
  scriptVersion :: bytes
  scriptVersionVal :: int
  estack :: scriptStack
  dstack :: stack
  astack :: stack
  tx :: "TxData option"
  block :: "Block option"
  sigHasher :: "TxData option"
  txIdx :: int
  numOps :: int
  flags :: ScriptFlags
  available :: "64 word list"

subsection \<open>Constants and collaborators declared outside \<open>engine.go\<close>\<close>

text \<open>
  The constants that \<open>engine.go\<close> uses and does not declare are parameters: every
  theorem below holds for all their values.
\<close>

record limits =
  OP_16 :: byte
  maxOpsPerScript :: int
  MaxScriptElementSize :: nat
  maxStackSize :: int
  MaxProgramByteLength :: nat
  OpCondIfTrue :: int
  OpCondWhileTrue :: int
  SigHashAll :: "32 word"
  SigHashSingle :: "32 word"
  SigHashAnyOneCanPay :: "32 word"

text \<open>
  The functions that \<open>engine.go\<close> calls and does not define are parameters as well:
  the three predicates of a parsed opcode, its handler (which receives the engine and
  may change all of it, fail or panic), the boolean decoding of a stack element, the
  script parser, the extraction of the version prefix and its decoding as a number
  (the value and the error, which \<open>Prepare\<close> swallows).
\<close>

record dispatcher =
  isDisabled :: "parsedOpcode \<Rightarrow> int \<Rightarrow> bool \<Rightarrow> bool"
  alwaysIllegal :: "parsedOpcode \<Rightarrow> bool"
  isConditional :: "parsedOpcode \<Rightarrow> bool"
  opfunc :: "parsedOpcode \<Rightarrow> Engine \<Rightarrow> (error option \<times> Engine) outcome"
  asBool :: "bytes \<Rightarrow> bool"
  parseScript :: "bytes \<Rightarrow> error + parsedOpcode list"
  parseScriptVersion :: "parsedOpcode list \<Rightarrow> bytes"
  makeScriptNum :: "bytes \<Rightarrow> bool \<Rightarrow> int \<times> error option"

subsection \<open>Methods of the stacks\<close>

text \<open>
  Modelled from the spec: the methods of \<open>stack\<close> that \<open>engine.go\<close> calls.
  \<open>Depth\<close> is the number of elements. \<open>PushByteArray\<close> adds an element on top.
  \<open>PeekByteArray idx\<close> reads the element \<open>idx\<close> places below the top and fails
  outside the stack. \<open>PopByteArray\<close> removes the top element and fails on an empty
  stack; \<open>PopBool\<close> decodes what it removed. \<open>DropN n\<close> removes the top \<open>n\<close> elements
  one by one; \<open>engine.go\<close> notes that its only errors are for invalid arguments, and
  a count below one is taken to be one: \<open>setStack\<close> on an empty stack then passes
  such a count, and the stack is empty whether that call fails or does nothing.
  \<open>Reset\<close> empties the stack. A failing method leaves the stack as it is at the
  failure. Depths are \<open>int32\<close> in \<open>engine.go\<close> and far below its range; they are
  integers here.
\<close>

definition Depth :: "stack \<Rightarrow> int" where
  "Depth s = int (length s)"

definition PushByteArray :: "bytes \<Rightarrow> stack \<Rightarrow> stack" where
  "PushByteArray so s = s @ [so]"

definition PeekByteArray :: "stack \<Rightarrow> int \<Rightarrow> error + bytes" where
  "PeekByteArray s idx =
     (let sz = Depth s
      in if idx < 0 \<or> idx \<ge> sz then Inl ErrStackUnderflow
         else Inr (s ! nat (sz - idx - 1)))"

definition PopByteArray :: "stack \<Rightarrow> (error + bytes) \<times> stack" where
  "PopByteArray s =
     (if s = [] then (Inl ErrStackUnderflow, s) else (Inr (last s), butlast s))"

definition PopBool :: "dispatcher \<Rightarrow> stack \<Rightarrow> (error + bool) \<times> stack" where
  "PopBool d s =
     (case PopByteArray s of
        (Inl e, s') \<Rightarrow> (Inl e, s')
      | (Inr so, s') \<Rightarrow> (Inr (asBool d so), s'))"

fun dropLoop :: "nat \<Rightarrow> stack \<Rightarrow> error option \<times> stack" where
  "dropLoop 0 s = (None, s)"
| "dropLoop (Suc n) s =
     (case PopByteArray s of
        (Inl e, s') \<Rightarrow> (Some e, s')
      | (Inr _, s') \<Rightarrow> dropLoop n s')"

definition DropN :: "int \<Rightarrow> stack \<Rightarrow> error option \<times> stack" where
  "DropN n s = (if n < 1 then (Some ErrStackInvalidArgs, s) else dropLoop (nat n) s)"

definition Reset :: "'a list \<Rightarrow> 'a list" where
  "Reset s = []"

text \<open>
  Modelled from the spec: the methods of \<open>scriptStack\<close> and \<open>stackFrame\<close> that
  \<open>engine.go\<close> calls. \<open>Peek\<close> is the topmost frame; on an empty execution stack there
  is none, and the Go code that reads a field of it panics. \<open>curPC\<close> gives the
  position of the topmost frame and its program counter and fails only if the frame
  stack is empty. \<open>frameOpcode\<close> is the frame's method \<open>opcode\<close>: the opcode at an
  offset of the script, a panic outside it. \<open>step\<close> advances the program counter by
  one. A frame is done (\<open>frameDone\<close>, the frame's method \<open>done\<close>) when it has no
  remaining opcodes. \<open>nextFrame\<close>
  pops finished frames off the top until a frame with remaining work is on top (not
  done) or the stack is empty (done).
\<close>

definition isEmpty :: "scriptStack \<Rightarrow> bool" where
  "isEmpty es = (es = [])"

definition EDepth :: "scriptStack \<Rightarrow> int" where
  "EDepth es = int (length es)"

definition Peek :: "scriptStack \<Rightarrow> stackFrame option" where
  "Peek es = (if es = [] then None else Some (last es))"

definition Push :: "stackFrame \<Rightarrow> scriptStack \<Rightarrow> scriptStack" where
  "Push f es = es @ [f]"

definition curPC :: "scriptStack \<Rightarrow> error + (nat \<times> nat)" where
  "curPC es =
     (if es = [] then Inl ErrStackScriptUnfinished
      else Inr (length es - 1, pc (last es)))"

definition frameOpcode :: "stackFrame \<Rightarrow> nat \<Rightarrow> parsedOpcode option" where
  "frameOpcode f off = (if off < length (script f) then Some (script f ! off) else None)"

definition step :: "stackFrame \<Rightarrow> stackFrame" where
  "step f = f\<lparr>pc := pc f + 1\<rparr>"

definition frameDone :: "stackFrame \<Rightarrow> bool" where
  "frameDone f = (pc f \<ge> length (script f))"

definition nextFrame :: "scriptStack \<Rightarrow> (bool \<times> error option) \<times> scriptStack" where
  "nextFrame es =
     (let es' = rev (dropWhile frameDone (rev es)) in ((es' = [], None), es'))"

subsection \<open>Queries of the engine\<close>

definition isKnownVersion :: "int \<Rightarrow> bool" where
  "isKnownVersion version = (version \<ge> 0 \<and> version \<le> 2)"

definition currentVersion :: "Engine \<Rightarrow> int" where
  "currentVersion vm = scriptVersionVal vm"

definition hasFlag :: "Engine \<Rightarrow> ScriptFlags \<Rightarrow> bool" where
  "hasFlag vm flag = (flags vm AND flag = flag)"

text \<open>
  \<open>isBranchExecuting\<close> reads the condition stack of the topmost frame; without a
  frame the read panics.
\<close>

definition isBranchExecuting :: "limits \<Rightarrow> Engine \<Rightarrow> bool outcome" where
  "isBranchExecuting c vm =
     (case Peek (estack vm) of
        None \<Rightarrow> Panic NilDereference
      | Some f \<Rightarrow>
          (let s = condStack f
           in if length s = 0 then Return True
              else (let v = s ! (length s - 1)
                    in Return (v = OpCondIfTrue c \<or> v = OpCondWhileTrue c))))"

subsection \<open>Opcode gating\<close>

text \<open>
  \<open>executeOpcode\<close> checks legality, then accounts for the cost, then gates on the
  branch state and dispatches. \<open>gatedDispatch\<close> is its last part, the statements after
  the cost accounting: it is reached from both arms of the accounting, with the counter
  incremented in the first. \<open>isBranchExecuting\<close> is evaluated first, as the left
  operand of \<open>&&\<close>.
\<close>

definition gatedDispatch ::
  "limits \<Rightarrow> dispatcher \<Rightarrow> parsedOpcode \<Rightarrow> Engine \<Rightarrow> (error option \<times> Engine) outcome" where
  "gatedDispatch c d pop vm =
     (case isBranchExecuting c vm of
        Panic p \<Rightarrow> Panic p
      | Return executing \<Rightarrow>
          if \<not> executing \<and> \<not> isConditional d pop then Return (None, vm)
          else opfunc d pop vm)"

definition executeOpcode ::
  "limits \<Rightarrow> dispatcher \<Rightarrow> parsedOpcode \<Rightarrow> Engine \<Rightarrow> (error option \<times> Engine) outcome" where
  "executeOpcode c d pop vm =
     (if isDisabled d pop (currentVersion vm) (block vm \<noteq> None) then
        Return (Some ErrStackOpDisabled, vm)
      else if alwaysIllegal d pop then
        Return (Some ErrStackReservedOpcode, vm)
      else if opvalue (opcode pop) > OP_16 c then
        (let vm1 = vm\<lparr>numOps := numOps vm + 1\<rparr>
         in if numOps vm1 > maxOpsPerScript c then
              Return (Some ErrStackTooManyOperations, vm1)
            else gatedDispatch c d pop vm1)
      else if length (data pop) > MaxScriptElementSize c then
        Return (Some ErrStackElementTooBig, vm)
      else gatedDispatch c d pop vm)"

subsection \<open>Completion check\<close>

text \<open>
  \<open>CheckErrorCondition\<close>. The trace message written before \<open>ErrStackScriptFailed\<close>
  is returned only formats a string and changes nothing.
\<close>

definition CheckErrorCondition :: "dispatcher \<Rightarrow> bool \<Rightarrow> Engine \<Rightarrow> error option \<times> Engine" where
  "CheckErrorCondition d finalScript vm =
     (if \<not> isEmpty (estack vm) then (Some ErrStackScriptUnfinished, vm)
      else if Depth (dstack vm) < 1 then (Some ErrStackEmptyStack, vm)
      else
        (case PopBool d (dstack vm) of
           (Inl err, s') \<Rightarrow> (Some err, vm\<lparr>dstack := s'\<rparr>)
         | (Inr v, s') \<Rightarrow>
             if \<not> v then (Some ErrStackScriptFailed, vm\<lparr>dstack := s'\<rparr>)
             else (None, vm\<lparr>dstack := s'\<rparr>)))"

subsection \<open>Stepping and running\<close>

definition PushScript :: "parsedOpcode list \<Rightarrow> Engine \<Rightarrow> Engine" where
  "PushScript newScript vm =
     vm\<lparr>estack := Push \<lparr>script = newScript, pc = 0, condStack = []\<rparr> (estack vm)\<rparr>"

text \<open>
  \<open>Step\<close> returns \<open>(done, err)\<close> and the engine. It holds the topmost frame by
  pointer while the opcode runs; a handler works on that frame in place and pushes
  new frames above it, so afterwards the frame is the one at the same position of the
  execution stack, and \<open>frame.step()\<close> advances it there. Should a handler have
  removed it, the advance no longer touches the engine.
\<close>

definition Step ::
  "limits \<Rightarrow> dispatcher \<Rightarrow> Engine \<Rightarrow> ((bool \<times> error option) \<times> Engine) outcome" where
  "Step c d vm =
     (case curPC (estack vm) of
        Inl err \<Rightarrow> Return ((True, Some err), vm)
      | Inr (fr, off) \<Rightarrow>
          (case Peek (estack vm) of
             None \<Rightarrow> Panic NilDereference
           | Some frame \<Rightarrow>
               (case frameOpcode frame off of
                  None \<Rightarrow> Panic IndexOutOfRange
                | Some opc \<Rightarrow>
                    (case executeOpcode c d opc vm of
                       Panic p \<Rightarrow> Panic p
                     | Return (Some err, vm1) \<Rightarrow> Return ((True, Some err), vm1)
                     | Return (None, vm1) \<Rightarrow>
                         if Depth (dstack vm1) + Depth (astack vm1) > maxStackSize c then
                           Return ((False, Some ErrStackOverflow), vm1)
                         else if EDepth (estack vm1) > maxExecutionStackSize then
                           Return ((False, Some ErrStackOverflow), vm1)
                         else
                           (let held = fr < length (estack vm1);
                                frame' = step (if held then estack vm1 ! fr else frame);
                                vm2 = (if held
                                       then vm1\<lparr>estack := (estack vm1)[fr := frame']\<rparr>
                                       else vm1)
                            in if frameDone frame' then
                                 (case nextFrame (estack vm2) of
                                    (r, es) \<Rightarrow> Return (r, vm2\<lparr>estack := es\<rparr>))
                               else Return ((False, None), vm2))))))"

text \<open>
  The loop of \<open>Execute\<close>: it need not end, as a handler may move the program counter
  back or push frames, so not returning is the value \<open>None\<close>. The trace messages of
  the loop only format strings.
\<close>

partial_function (option) stepLoop ::
  "limits \<Rightarrow> dispatcher \<Rightarrow> Engine \<Rightarrow> (error option \<times> Engine) outcome option" where
  "stepLoop c d vm =
     (case Step c d vm of
        Panic p \<Rightarrow> Some (Panic p)
      | Return ((dn, err), vm') \<Rightarrow>
          if err \<noteq> None then Some (Return (err, vm'))
          else if dn then Some (Return (CheckErrorCondition d True vm'))
          else stepLoop c d vm')"

definition Execute ::
  "limits \<Rightarrow> dispatcher \<Rightarrow> Engine \<Rightarrow> (error option \<times> Engine) outcome option" where
  "Execute c d vm =
     (if \<not> isKnownVersion (scriptVersionVal vm) then Some (Return (None, vm))
      else stepLoop c d vm)"

subsection \<open>Hash type encoding\<close>

text \<open>
  \<open>bc.SigHashType\<close> is declared outside \<open>engine.go\<close>; it is taken to be an unsigned
  32-bit type, as the flags are.
\<close>

definition checkHashTypeEncoding :: "limits \<Rightarrow> Engine \<Rightarrow> 32 word \<Rightarrow> error option" where
  "checkHashTypeEncoding c vm hashType =
     (if \<not> hasFlag vm ScriptVerifyStrictEncoding then None
      else
        (let sigHashType = hashType AND NOT (SigHashAnyOneCanPay c)
         in if sigHashType < SigHashAll c \<or> sigHashType > SigHashSingle c
            then Some (ErrInvalidHashType hashType)
            else None))"

subsection \<open>Reading and replacing a stack\<close>

text \<open>
  \<open>getStack\<close> allocates an array of the stack's depth and fills it from its last
  position down, reading the stack from the top; an error of \<open>PeekByteArray\<close> is
  dropped and leaves the nil slice. \<open>setStack\<close> drops the error of \<open>DropN\<close>.
\<close>

definition getStack :: "stack \<Rightarrow> bytes list" where
  "getStack s =
     (let array = replicate (nat (Depth s)) []
      in foldl (\<lambda>array i.
                  array[length array - i - 1 :=
                          (case PeekByteArray s (int i) of Inl _ \<Rightarrow> [] | Inr so \<Rightarrow> so)])
               array [0 ..< length array])"

definition setStack :: "stack \<Rightarrow> bytes list \<Rightarrow> stack" where
  "setStack s ds =
     (let s1 = snd (DropN (Depth s) s)
      in foldl (\<lambda>s' x. PushByteArray x s') s1 ds)"

definition GetStack :: "Engine \<Rightarrow> bytes list" where
  "GetStack vm = getStack (dstack vm)"

definition SetStack :: "bytes list \<Rightarrow> Engine \<Rightarrow> Engine" where
  "SetStack ds vm = vm\<lparr>dstack := setStack (dstack vm) ds\<rparr>"

definition GetAltStack :: "Engine \<Rightarrow> bytes list" where
  "GetAltStack vm = getStack (astack vm)"

definition SetAltStack :: "bytes list \<Rightarrow> Engine \<Rightarrow> Engine" where
  "SetAltStack ds vm = vm\<lparr>astack := setStack (astack vm) ds\<rparr>"

subsection \<open>Preparing and constructing an engine\<close>

text \<open>
  \<open>Prepare\<close>. The parameters \<open>script\<close> and \<open>txIdx\<close> of the Go method are \<open>scr\<close> and
  \<open>idx\<close> here, the former names being fields.
\<close>

definition Prepare ::
  "limits \<Rightarrow> dispatcher \<Rightarrow> bytes \<Rightarrow> bytes list \<Rightarrow> int \<Rightarrow> Engine \<Rightarrow> error option \<times> Engine" where
  "Prepare c d scr args idx vm =
     (if idx < 0 \<or> (tx vm \<noteq> None \<and> idx \<ge> int (length (Inputs (the (tx vm))))) then
        (Some ErrInvalidIndex, vm)
      else
        (let vm1 = vm\<lparr>txIdx := idx\<rparr>;
             vm2 = vm1\<lparr>dstack := Reset (dstack vm1)\<rparr>;
             vm3 = vm2\<lparr>estack := Reset (estack vm2)\<rparr>;
             vm4 = vm3\<lparr>dstack := foldl (\<lambda>s arg. PushByteArray arg s) (dstack vm3) args\<rparr>
         in if length scr > MaxProgramByteLength c then (Some ErrStackLongScript, vm4)
            else
              (case parseScript d scr of
                 Inl err \<Rightarrow> (Some err, vm4)
               | Inr parsedScript \<Rightarrow>
                   (let vm5 = vm4\<lparr>scriptVersion := parseScriptVersion d parsedScript\<rparr>;
                        vm6 = vm5\<lparr>scriptVersionVal :=
                                     fst (makeScriptNum d (scriptVersion vm5) False)\<rparr>;
                        vm7 = PushScript parsedScript vm6;
                        vm8 = vm7\<lparr>numOps := 0\<rparr>
                    in (None, vm8)))))"

text \<open>
  \<open>newReusableEngine\<close> starts from the zero value of the struct and copies each
  output's amount into \<open>available\<close>.
\<close>

definition newReusableEngine ::
  "TxData option \<Rightarrow> Block option \<Rightarrow> ScriptFlags \<Rightarrow> Engine \<times> error option" where
  "newReusableEngine t b fl =
     (let vm = \<lparr>scriptVersion = [], scriptVersionVal = 0, estack = [], dstack = [],
                astack = [], tx = t, block = b, sigHasher = None, txIdx = 0, numOps = 0,
                flags = fl, available = []\<rparr>;
          vm1 = (case t of None \<Rightarrow> vm | Some x \<Rightarrow> vm\<lparr>sigHasher := Some x\<rparr>);
          vm2 = (case tx vm1 of
                   None \<Rightarrow> vm1
                 | Some x \<Rightarrow> vm1\<lparr>available := map Amount (Outputs x)\<rparr>)
      in (vm2, None))"

definition NewReusableEngine :: "TxData option \<Rightarrow> ScriptFlags \<Rightarrow> Engine \<times> error option" where
  "NewReusableEngine t fl = newReusableEngine t None fl"

text \<open>
  \<open>NewEngine\<close> evaluates the argument \<open>tx.Inputs[txIdx].InputWitness\<close> before it
  calls \<open>Prepare\<close>: a nil transaction or an index outside the inputs panics there.
\<close>

definition NewEngine ::
  "limits \<Rightarrow> dispatcher \<Rightarrow> bytes \<Rightarrow> TxData option \<Rightarrow> int \<Rightarrow> ScriptFlags
     \<Rightarrow> (Engine option \<times> error option) outcome" where
  "NewEngine c d scriptPubKey t idx fl =
     (case NewReusableEngine t fl of
        (vm, Some err) \<Rightarrow> Return (None, Some err)
      | (vm, None) \<Rightarrow>
          (case t of
             None \<Rightarrow> Panic NilDereference
           | Some x \<Rightarrow>
               if idx < 0 \<or> idx \<ge> int (length (Inputs x)) then Panic IndexOutOfRange
               else
                 (case Prepare c d scriptPubKey (InputWitness (Inputs x ! nat idx)) idx vm of
                    (err, vm') \<Rightarrow> Return (Some vm', err))))"

subsection \<open>An instance of the parameters\<close>

text \<open>
  One instance of the constants and of the collaborators, on which the engine is
  evaluated at concrete inputs below. Every opcode is a single byte without data for
  this parser, the handler of every opcode pushes the opcode's data, and an element
  is true when it has a non-zero byte.
\<close>

definition exampleLimits :: limits where
  "exampleLimits =
     \<lparr>OP_16 = 0x60, maxOpsPerScript = 201, MaxScriptElementSize = 520,
      maxStackSize = 1000, MaxProgramByteLength = 10000,
      OpCondIfTrue = 1, OpCondWhileTrue = 3,
      SigHashAll = 1, SigHashSingle = 3, SigHashAnyOneCanPay = 0x80\<rparr>"

definition exampleDispatcher :: dispatcher where
  "exampleDispatcher =
     \<lparr>isDisabled = (\<lambda>p v b. opvalue (opcode p) = 0x7e),
      alwaysIllegal = (\<lambda>p. opvalue (opcode p) = 0x65),
      isConditional = (\<lambda>p. opvalue (opcode p) \<in> {0x63, 0x64, 0x67, 0x68}),
      opfunc = (\<lambda>p vm. Return (None, vm\<lparr>dstack := PushByteArray (data p) (dstack vm)\<rparr>)),
      asBool = (\<lambda>bs. filter (\<lambda>b. b \<noteq> 0) bs \<noteq> []),
      parseScript = (\<lambda>bs. Inr (map (\<lambda>b. \<lparr>opcode = \<lparr>opvalue = b\<rparr>, data = []\<rparr>) bs)),
      parseScriptVersion = (\<lambda>ps. []),
      makeScriptNum = (\<lambda>bs m. (0, None))\<rparr>"

definition exampleOp :: "byte \<Rightarrow> parsedOpcode" where
  "exampleOp b = \<lparr>opcode = \<lparr>opvalue = b\<rparr>, data = []\<rparr>"

definition exampleTx :: TxData where
  "exampleTx =
     \<lparr>Inputs = [\<lparr>InputWitness = [[1]]\<rparr>, \<lparr>InputWitness = [[2], [3]]\<rparr>],
      Outputs = [\<lparr>Amount = 50\<rparr>, \<lparr>Amount = 7\<rparr>]\<rparr>"

text \<open>
  A fresh reusable engine for that transaction, and the same engine inside a branch
  that is not executing: its only frame has the inactive tag \<open>0\<close> on top of its
  condition stack.
\<close>

definition exampleEngine :: Engine where
  "exampleEngine = fst (NewReusableEngine (Some exampleTx) 0)"

definition inactiveEngine :: Engine where
  "inactiveEngine =
     exampleEngine\<lparr>estack := [\<lparr>script = [exampleOp 0x7e, exampleOp 0x68], pc = 0,
                                   condStack = [0]\<rparr>]\<rparr>"

section \<open>Facts about the stacks\<close>

lemma push_all: "foldl (\<lambda>s x. PushByteArray x s) s ds = s @ ds"
  by (induction ds arbitrary: s) (simp_all add: PushByteArray_def)

lemma dropLoop_all: "dropLoop (length s) s = (None, [])"
proof (induction s rule: rev_induct)
  case Nil
  show ?case by simp
next
  case (snoc x xs)
  then show ?case by (simp add: PopByteArray_def)
qed

lemma DropN_all: "snd (DropN (Depth s) s) = []"
proof (cases "s = []")
  case True
  then show ?thesis by (simp add: DropN_def Depth_def)
next
  case False
  then have "\<not> Depth s < 1" by (cases s) (simp_all add: Depth_def)
  then show ?thesis by (simp add: DropN_def Depth_def dropLoop_all)
qed

lemma setStack_eq: "setStack s ds = ds"
  by (simp add: setStack_def DropN_all push_all)

lemma peek_nth:
  "i < length s \<Longrightarrow> PeekByteArray s (int i) = Inr (s ! (length s - i - 1))"
  by (simp add: PeekByteArray_def Depth_def Let_def nat_diff_distrib')

text \<open>
  The loop of \<open>getStack\<close> after \<open>k\<close> rounds: the array has its length, its last
  \<open>k\<close> positions hold the stack's elements and the others are untouched.
\<close>

lemma fill_loop:
  assumes "length arr = length s" and "k \<le> length s"
  shows "length (foldl (\<lambda>array i. array[length array - i - 1 :=
                     (case PeekByteArray s (int i) of Inl _ \<Rightarrow> [] | Inr so \<Rightarrow> so)])
                  arr [0 ..< k]) = length s \<and>
         (\<forall>j < length s.
            foldl (\<lambda>array i. array[length array - i - 1 :=
                     (case PeekByteArray s (int i) of Inl _ \<Rightarrow> [] | Inr so \<Rightarrow> so)])
                  arr [0 ..< k] ! j =
            (if length s - k \<le> j then s ! j else arr ! j))"
  using assms(2)
proof (induction k)
  case 0
  with assms(1) show ?case by simp
next
  case (Suc k)
  then have k: "k < length s"
    and len: "length (foldl (\<lambda>array i. array[length array - i - 1 :=
                     (case PeekByteArray s (int i) of Inl _ \<Rightarrow> [] | Inr so \<Rightarrow> so)])
                  arr [0 ..< k]) = length s"
    and elems: "\<forall>j < length s.
            foldl (\<lambda>array i. array[length array - i - 1 :=
                     (case PeekByteArray s (int i) of Inl _ \<Rightarrow> [] | Inr so \<Rightarrow> so)])
                  arr [0 ..< k] ! j =
            (if length s - k \<le> j then s ! j else arr ! j)"
    by simp_all
  show ?case
    using k len elems by (auto simp add: peek_nth nth_list_update)
qed

lemma getStack_eq: "getStack s = s"
proof -
  have "length (replicate (length s) ([]::bytes)) = length s" by simp
  from fill_loop [OF this, of "length s"]
  show ?thesis
    by (auto simp add: getStack_def Depth_def Let_def intro: nth_equalityI)
qed

section \<open>Opcode gating\<close>

text \<open>
  C1. In \<open>executeOpcode\<close> an opcode that is disabled for the current script version or
  block context fails with \<open>ErrStackOpDisabled\<close>, and an always-illegal opcode (one that
  the first check let through) fails with \<open>ErrStackReservedOpcode\<close>. Both hold for
  every engine state, so also when the current branch is not executing, and for every
  handler: the checks come before the branch gate, and the engine is left as it was.
\<close>

theorem executeOpcode_legality:
  "(isDisabled d pop (currentVersion vm) (block vm \<noteq> None) \<longrightarrow>
      executeOpcode c d pop vm = Return (Some ErrStackOpDisabled, vm)) \<and>
   (\<not> isDisabled d pop (currentVersion vm) (block vm \<noteq> None) \<and> alwaysIllegal d pop \<longrightarrow>
      executeOpcode c d pop vm = Return (Some ErrStackReservedOpcode, vm))"
  by (simp add: executeOpcode_def)

text \<open>
  The instance: inside a branch that is not executing, the disabled opcode \<open>0x7e\<close>
  and the always-illegal opcode \<open>0x65\<close> still fail.
\<close>

theorem executeOpcode_legality_witness:
  "isBranchExecuting exampleLimits inactiveEngine = Return False \<and>
   isDisabled exampleDispatcher (exampleOp 0x7e) (currentVersion inactiveEngine)
     (block inactiveEngine \<noteq> None) \<and>
   executeOpcode exampleLimits exampleDispatcher (exampleOp 0x7e) inactiveEngine =
     Return (Some ErrStackOpDisabled, inactiveEngine) \<and>
   \<not> isDisabled exampleDispatcher (exampleOp 0x65) (currentVersion inactiveEngine)
     (block inactiveEngine \<noteq> None) \<and>
   alwaysIllegal exampleDispatcher (exampleOp 0x65) \<and>
   executeOpcode exampleLimits exampleDispatcher (exampleOp 0x65) inactiveEngine =
     Return (Some ErrStackReservedOpcode, inactiveEngine)"
proof -
  have br: "isBranchExecuting exampleLimits inactiveEngine = Return False"
    by (simp add: isBranchExecuting_def inactiveEngine_def exampleLimits_def Peek_def)
  have dis: "isDisabled exampleDispatcher (exampleOp 0x7e) (currentVersion inactiveEngine)
     (block inactiveEngine \<noteq> None)"
    by (simp add: exampleDispatcher_def exampleOp_def)
  have ndis: "\<not> isDisabled exampleDispatcher (exampleOp 0x65) (currentVersion inactiveEngine)
     (block inactiveEngine \<noteq> None)"
    by (simp add: exampleDispatcher_def exampleOp_def)
  have ill: "alwaysIllegal exampleDispatcher (exampleOp 0x65)"
    by (simp add: exampleDispatcher_def exampleOp_def)
  from br dis ndis ill
    executeOpcode_legality [of exampleDispatcher "exampleOp 0x7e" inactiveEngine exampleLimits]
    executeOpcode_legality [of exampleDispatcher "exampleOp 0x65" inactiveEngine exampleLimits]
  show ?thesis by blast
qed

text \<open>
  C3. Cost accounting in \<open>executeOpcode\<close> does not look at the branch state. For an
  opcode that the legality checks let through and whose value is above \<open>OP_16\<close>, the
  counter \<open>numOps\<close> is incremented; if the incremented counter exceeds
  \<open>maxOpsPerScript\<close> the result is \<open>ErrStackTooManyOperations\<close>, and if it does not,
  the accounting raises nothing and the engine with the incremented counter goes on to
  the branch gate. For any other opcode (a data push) the result is
  \<open>ErrStackElementTooBig\<close> if its data is longer than \<open>MaxScriptElementSize\<close>, and if
  it is not, the unchanged engine goes on to the branch gate. The engine state is
  arbitrary, so the branch may be executing or not.
\<close>

theorem executeOpcode_cost:
  assumes "\<not> isDisabled d pop (currentVersion vm) (block vm \<noteq> None)"
    and "\<not> alwaysIllegal d pop"
  shows "(opvalue (opcode pop) > OP_16 c \<longrightarrow>
            (numOps vm + 1 > maxOpsPerScript c \<longrightarrow>
               executeOpcode c d pop vm =
                 Return (Some ErrStackTooManyOperations, vm\<lparr>numOps := numOps vm + 1\<rparr>)) \<and>
            (numOps vm + 1 \<le> maxOpsPerScript c \<longrightarrow>
               executeOpcode c d pop vm =
                 gatedDispatch c d pop (vm\<lparr>numOps := numOps vm + 1\<rparr>))) \<and>
         (opvalue (opcode pop) \<le> OP_16 c \<longrightarrow>
            (length (data pop) > MaxScriptElementSize c \<longrightarrow>
               executeOpcode c d pop vm = Return (Some ErrStackElementTooBig, vm)) \<and>
            (length (data pop) \<le> MaxScriptElementSize c \<longrightarrow>
               executeOpcode c d pop vm = gatedDispatch c d pop vm))"
  using assms by (auto simp add: executeOpcode_def Let_def)

text \<open>
  The instances, all inside a branch that is not executing: the non-push opcode
  \<open>0x61\<close> at a counter of 201 and of 200, and a push of 521 and of 520 bytes.
\<close>

theorem executeOpcode_cost_witness:
  "executeOpcode exampleLimits exampleDispatcher (exampleOp 0x61)
     (inactiveEngine\<lparr>numOps := 201\<rparr>) =
     Return (Some ErrStackTooManyOperations, inactiveEngine\<lparr>numOps := 202\<rparr>) \<and>
   executeOpcode exampleLimits exampleDispatcher (exampleOp 0x61)
     (inactiveEngine\<lparr>numOps := 200\<rparr>) =
     Return (None, inactiveEngine\<lparr>numOps := 201\<rparr>) \<and>
   executeOpcode exampleLimits exampleDispatcher
     ((exampleOp 0x4d)\<lparr>data := replicate 521 0\<rparr>) inactiveEngine =
     Return (Some ErrStackElementTooBig, inactiveEngine) \<and>
   executeOpcode exampleLimits exampleDispatcher
     ((exampleOp 0x4d)\<lparr>data := replicate 520 0\<rparr>) inactiveEngine =
     Return (None, inactiveEngine)"
proof -
  have br: "\<And>n. isBranchExecuting exampleLimits (inactiveEngine\<lparr>numOps := n\<rparr>) = Return False"
    by (simp add: isBranchExecuting_def inactiveEngine_def exampleLimits_def Peek_def)
  have br0: "isBranchExecuting exampleLimits inactiveEngine = Return False"
    by (simp add: isBranchExecuting_def inactiveEngine_def exampleLimits_def Peek_def)
  have l1: "\<not> isDisabled exampleDispatcher (exampleOp 0x61) v blk" 
           "\<not> alwaysIllegal exampleDispatcher (exampleOp 0x61)" for v blk
    by (simp_all add: exampleDispatcher_def exampleOp_def)
  have l2: "\<not> isDisabled exampleDispatcher ((exampleOp 0x4d)\<lparr>data := ds\<rparr>) v blk" 
           "\<not> alwaysIllegal exampleDispatcher ((exampleOp 0x4d)\<lparr>data := ds\<rparr>)" for v blk ds
    by (simp_all add: exampleDispatcher_def exampleOp_def)
  have nc: "\<not> isConditional exampleDispatcher (exampleOp 0x61)"
       "\<not> isConditional exampleDispatcher ((exampleOp 0x4d)\<lparr>data := ds\<rparr>)" for ds
    by (simp_all add: exampleDispatcher_def exampleOp_def)
  have a: "executeOpcode exampleLimits exampleDispatcher (exampleOp 0x61)
     (inactiveEngine\<lparr>numOps := 201\<rparr>) =
     Return (Some ErrStackTooManyOperations, inactiveEngine\<lparr>numOps := 202\<rparr>)"
    using executeOpcode_cost [where d = exampleDispatcher and pop = "exampleOp 0x61"
        and vm = "inactiveEngine\<lparr>numOps := 201\<rparr>" and c = exampleLimits] l1
    by (simp add: exampleLimits_def exampleOp_def)
  have b: "executeOpcode exampleLimits exampleDispatcher (exampleOp 0x61)
     (inactiveEngine\<lparr>numOps := 200\<rparr>) =
     Return (None, inactiveEngine\<lparr>numOps := 201\<rparr>)"
    using executeOpcode_cost [where d = exampleDispatcher and pop = "exampleOp 0x61"
        and vm = "inactiveEngine\<lparr>numOps := 200\<rparr>" and c = exampleLimits] l1 br nc
    by (simp add: exampleLimits_def exampleOp_def gatedDispatch_def)
  have c: "executeOpcode exampleLimits exampleDispatcher
     ((exampleOp 0x4d)\<lparr>data := replicate 521 0\<rparr>) inactiveEngine =
     Return (Some ErrStackElementTooBig, inactiveEngine)"
    using executeOpcode_cost [where d = exampleDispatcher
        and pop = "(exampleOp 0x4d)\<lparr>data := replicate 521 0\<rparr>"
        and vm = inactiveEngine and c = exampleLimits] l2
    by (simp add: exampleLimits_def exampleOp_def)
  have d: "executeOpcode exampleLimits exampleDispatcher
     ((exampleOp 0x4d)\<lparr>data := replicate 520 0\<rparr>) inactiveEngine =
     Return (None, inactiveEngine)"
    using executeOpcode_cost [where d = exampleDispatcher
        and pop = "(exampleOp 0x4d)\<lparr>data := replicate 520 0\<rparr>"
        and vm = inactiveEngine and c = exampleLimits] l2 br0 nc
    by (simp add: exampleLimits_def exampleOp_def gatedDispatch_def)
  from a b c d show ?thesis by simp
qed

section \<open>Running a script\<close>

text \<open>
  C2. When the cached script version value is outside the known range from 0 to 2,
  \<open>Execute\<close> returns, its error is nil and the engine is exactly as it was, whatever
  the opcode handlers and the other collaborators are: no step is taken, no handler
  is run and the completion check, which would pop the data stack or fail, is not
  made.
\<close>

theorem Execute_unknown_version:
  assumes "scriptVersionVal vm < 0 \<or> scriptVersionVal vm > 2"
  shows "Execute c d vm = Some (Return (None, vm))"
  using assms by (auto simp add: Execute_def isKnownVersion_def)

text \<open>
  The instance: version 3 on an engine whose next opcode is disabled and whose
  execution stack is not drained; a step or the completion check would fail on it.
\<close>

theorem Execute_unknown_version_witness:
  "scriptVersionVal (inactiveEngine\<lparr>scriptVersionVal := 3\<rparr>) > 2 \<and>
   Execute exampleLimits exampleDispatcher (inactiveEngine\<lparr>scriptVersionVal := 3\<rparr>) =
     Some (Return (None, inactiveEngine\<lparr>scriptVersionVal := 3\<rparr>))"
  using Execute_unknown_version
    [where vm = "inactiveEngine\<lparr>scriptVersionVal := 3\<rparr>" and c = exampleLimits
       and d = exampleDispatcher]
  by simp

end
